theory Spec2Isabelle
  imports Main
begin

section \<open>Python strings\<close>

text \<open>
  A Python \<open>str\<close> is modelled as a HOL \<open>string\<close>: a list of characters, each a code
  point below 256. \<open>isspace\<close> is \<open>str.isspace\<close> on one character of that range: the
  characters \<open>str.split()\<close> and \<open>str.strip()\<close> treat as whitespace.
\<close>

definition isspace :: "char \<Rightarrow> bool" where
  "isspace c = (c \<in> set [CHR 0x09, CHR 0x0A, CHR 0x0B, CHR 0x0C, CHR 0x0D,
                          CHR 0x1C, CHR 0x1D, CHR 0x1E, CHR 0x1F, CHR 0x20,
                          CHR 0x85, CHR 0xA0])"

text \<open>
  \<open>s.split()\<close> with no separator: runs of whitespace separate the tokens, and no empty
  token is produced. \<open>split_acc cur s\<close> scans \<open>s\<close> with the token under construction
  \<open>cur\<close> (reversed).
\<close>

fun split_acc :: "string \<Rightarrow> string \<Rightarrow> string list" where
  "split_acc cur [] = (if cur = [] then [] else [rev cur])"
| "split_acc cur (c # cs) =
     (if isspace c
      then (if cur = [] then split_acc [] cs else rev cur # split_acc [] cs)
      else split_acc (c # cur) cs)"

definition split_ws :: "string \<Rightarrow> string list" where
  "split_ws s = split_acc [] s"

text \<open>\<open>s.strip()\<close>: leading and trailing whitespace removed.\<close>

definition lstrip :: "string \<Rightarrow> string" where
  "lstrip s = dropWhile isspace s"

definition rstrip :: "string \<Rightarrow> string" where
  "rstrip s = rev (dropWhile isspace (rev s))"

definition strip :: "string \<Rightarrow> string" where
  "strip s = rstrip (lstrip s)"

text \<open>
  The whitespace-delimited token count in the specification's words: a token starts at
  every non-whitespace character that is the first of the string or follows a
  whitespace character.
\<close>

definition token_count :: "string \<Rightarrow> nat" where
  "token_count s =
     length (filter (\<lambda>(p, c). isspace p \<and> \<not> isspace c) (zip (CHR 0x20 # s) s))"

section \<open>Validation agent\<close>

text \<open>
  A value stored under a key of the entities dictionary: a list of strings for a
  category, a string for the rollback message. \<open>py_len\<close> is Python's \<open>len\<close> on both.
\<close>

datatype pyval = PyStr string | PyList "string list"

fun py_len :: "pyval \<Rightarrow> nat" where
  "py_len (PyStr s) = length s"
| "py_len (PyList xs) = length xs"

type_synonym pydict = "(string \<times> pyval) list"

definition dict_values :: "pydict \<Rightarrow> pyval list" where
  "dict_values d = map snd d"

text \<open>
  \<open>validate_summary\<close>: \<open>bool(summary and len(summary.split()) > 5)\<close>. The argument is
  an optional string, \<open>None\<close> being Python's \<open>None\<close>; \<open>None\<close> and the empty string are
  falsy. The call of \<open>log_agent_action\<close> only writes to the observability sink.
\<close>

definition validate_summary :: "string option \<Rightarrow> bool" where
  "validate_summary summary =
     (case summary of
        None \<Rightarrow> False
      | Some s \<Rightarrow> s \<noteq> [] \<and> length (split_ws s) > 5)"

text \<open>\<open>validate_entities\<close>: \<open>any(len(v) > 0 for v in entities.values())\<close>.\<close>

definition validate_entities :: "pydict \<Rightarrow> bool" where
  "validate_entities entities = list_ex (\<lambda>v. py_len v > 0) (dict_values entities)"

definition rollback_summary :: string where
  "rollback_summary = ''Summary rolled back due to low quality.''"

definition rollback_entities :: string where
  "rollback_entities = ''Entities rolled back due to low confidence.''"

text \<open>The three-category dictionary built by the entity extractor.\<close>

definition entity_set :: "string list \<Rightarrow> string list \<Rightarrow> string list \<Rightarrow> pydict" where
  "entity_set names dates orgs =
     [(''names'', PyList names), (''dates'', PyList dates), (''organizations'', PyList orgs)]"

text \<open>The dictionary that replaces it on rollback: \<open>{"error": rollback_entities()}\<close>.\<close>

definition rollback_entities_dict :: pydict where
  "rollback_entities_dict = [(''error'', PyStr rollback_entities)]"

section \<open>The language-model endpoint\<close>

text \<open>
  The body of the chat-completion request: the system message, the user message and
  \<open>max_tokens\<close>. The URL and the headers are built from \<open>Config\<close> and are the same
  in every call.
\<close>

record llm_request =
  system_content :: string
  user_content :: string
  max_tokens :: nat

text \<open>
  What \<open>requests.post\<close> can do: raise a \<open>requests.exceptions.RequestException\<close>,
  raise another exception, or return a response. The string of an exception is
  \<open>str(e)\<close>. In a response, \<open>json_content\<close> is the outcome of
  \<open>resp.json()["choices"][0]["message"]["content"]\<close>: the content string, or the
  exception raised on the way to it.
\<close>

datatype py_exc = RequestException string | OtherException string

record http_response =
  status_code :: int
  resp_text :: string
  json_content :: "py_exc + string"

text \<open>
  The environment of one call: the endpoint (its reply may depend on the requests
  posted before), the parsing libraries, the identifier drawn by \<open>uuid.uuid4()\<close> and
  the paths that can be opened for writing. A parsing library receives the contents of
  the file at the path (\<open>None\<close> when there is no such file) and returns the extracted
  text, or \<open>Inl\<close> the string of the exception it raises: \<open>fitz_pages\<close> is
  \<open>fitz.open\<close> followed by \<open>page.get_text("text")\<close> on every page in order,
  \<open>docx_paragraphs\<close> is the \<open>text\<close> of every paragraph of \<open>docx.Document\<close>, and
  \<open>bs4_get_text\<close> is \<open>BeautifulSoup(f, "html.parser").get_text(separator="\n")\<close>
  on the file read as UTF-8.
\<close>

record env =
  upstream :: "llm_request list \<Rightarrow> llm_request \<Rightarrow> py_exc + http_response"
  fitz_pages :: "string option \<Rightarrow> string + string list"
  docx_paragraphs :: "string option \<Rightarrow> string + string list"
  bs4_get_text :: "string option \<Rightarrow> string + string"
  uuid4 :: string
  writable :: "string \<Rightarrow> bool"

text \<open>The record kept for a document, and the response of the upload route.\<close>

record document =
  doc_filename :: string
  doc_text :: string
  doc_summary :: string
  doc_entities :: pydict

record upload_response =
  resp_doc_id :: string
  resp_filename :: string
  resp_summary :: string
  resp_entities :: pydict

text \<open>
  The state the code reads and writes: the requests posted to the endpoint so far, the
  files on disk, the paths handed to a parsing library so far, and the in-memory
  \<open>documents_store\<close>.
\<close>

record world =
  posted :: "llm_request list"
  files :: "string \<rightharpoonup> string"
  opened :: "string list"
  documents_store :: "string \<rightharpoonup> document"

text \<open>\<open>sep.join(xs)\<close>.\<close>

fun py_join :: "string \<Rightarrow> string list \<Rightarrow> string" where
  "py_join sep [] = []"
| "py_join sep [x] = x"
| "py_join sep (x # y # ys) = x @ sep @ py_join sep (y # ys)"

text \<open>\<open>sub in s\<close> on strings.\<close>

fun py_in :: "string \<Rightarrow> string \<Rightarrow> bool" where
  "py_in sub [] = (sub = [])"
| "py_in sub (c # cs) = (take (length sub) (c # cs) = sub \<or> py_in sub cs)"

text \<open>\<open>s.endswith(suffix)\<close>.\<close>

definition endswith :: "string \<Rightarrow> string \<Rightarrow> bool" where
  "endswith s suffix =
     (length suffix \<le> length s \<and> drop (length s - length suffix) s = suffix)"

text \<open>\<open>str(n)\<close> of an integer, as the f-string prints a status code.\<close>

fun str_nat :: "nat \<Rightarrow> string" where
  "str_nat n =
     (if n < 10 then [char_of (48 + n)]
      else str_nat (n div 10) @ [char_of (48 + n mod 10)])"

definition str_int :: "int \<Rightarrow> string" where
  "str_int i = (if i < 0 then CHR ''-'' # str_nat (nat (- i)) else str_nat (nat i))"

text \<open>Posting a request: the request joins the trace and the endpoint answers.\<close>

definition post :: "env \<Rightarrow> world \<Rightarrow> llm_request \<Rightarrow> (py_exc + http_response) \<times> world" where
  "post e w req = (upstream e (posted w) req, w\<lparr>posted := posted w @ [req]\<rparr>)"

section \<open>Summarizer agent\<close>

definition system_prompt :: string where
  "system_prompt = ''You are a document summarization agent.''"

definition summary_request :: "string \<Rightarrow> llm_request" where
  "summary_request content =
     \<lparr>system_content = system_prompt, user_content = take 4000 content, max_tokens = 500\<rparr>"

text \<open>
  \<open>_call_llm\<close>: one request; status 200 gives the stripped content, or the sentinel
  when that is empty; any other status gives the failure string with the response
  body; an exception gives the failure string of its kind.
\<close>

definition summarizer_failure :: "py_exc \<Rightarrow> string" where
  "summarizer_failure x =
     (case x of
        RequestException m \<Rightarrow> ''Summarization failed due to network error: '' @ m
      | OtherException m \<Rightarrow> ''Summarization failed due to unexpected error: '' @ m)"

definition call_llm :: "env \<Rightarrow> world \<Rightarrow> string \<Rightarrow> string \<times> world" where
  "call_llm e w content =
     (case post e w (summary_request content) of
        (Inl x, w') \<Rightarrow> (summarizer_failure x, w')
      | (Inr resp, w') \<Rightarrow>
          (if status_code resp = 200
           then (case json_content resp of
                   Inl x \<Rightarrow> (summarizer_failure x, w')
                 | Inr c \<Rightarrow>
                     (let output = strip c
                      in (if output \<noteq> [] then output else ''No summary generated.'', w')))
           else (''Summarization failed: '' @ resp_text resp, w')))"

definition summarize_section :: "env \<Rightarrow> world \<Rightarrow> string \<Rightarrow> string \<times> world" where
  "summarize_section e w text = call_llm e w (''Summarize this section:\<newline>'' @ text)"

definition summarize_document :: "env \<Rightarrow> world \<Rightarrow> string \<Rightarrow> string \<times> world" where
  "summarize_document e w text =
     call_llm e w (''Provide a section-wise summary of this document:\<newline>'' @ text)"

definition summarize_corpus :: "env \<Rightarrow> world \<Rightarrow> string list \<Rightarrow> string \<times> world" where
  "summarize_corpus e w texts =
     (let joined = py_join ''\<newline>\<newline>'' texts
      in call_llm e w (''Summarize across documents:\<newline>'' @ joined))"

section \<open>Question-answering agent\<close>

definition qa_system_prompt :: string where
  "qa_system_prompt = ''You are a Q&A assistant. Answer based only on the provided document. If the answer is not in the document, say so clearly.''"

definition qa_request :: "string \<Rightarrow> string \<Rightarrow> llm_request" where
  "qa_request question doc =
     \<lparr>system_content = qa_system_prompt,
      user_content = ''Document:\<newline>'' @ take 4000 doc @ ''\<newline>\<newline>Question: '' @ question,
      max_tokens = 300\<rparr>"

definition qa_failure :: "py_exc \<Rightarrow> string" where
  "qa_failure x =
     (case x of
        RequestException m \<Rightarrow> ''Q&A failed due to network error: '' @ m
      | OtherException m \<Rightarrow> ''Q&A failed due to unexpected error: '' @ m)"

definition ask :: "env \<Rightarrow> world \<Rightarrow> string \<Rightarrow> string \<Rightarrow> string \<times> world" where
  "ask e w question doc =
     (if strip question = [] then (''No question provided.'', w)
      else if strip doc = [] then (''No document content available.'', w)
      else
        (case post e w (qa_request question doc) of
           (Inl x, w') \<Rightarrow> (qa_failure x, w')
         | (Inr resp, w') \<Rightarrow>
             (if status_code resp = 200
              then (case json_content resp of
                      Inl x \<Rightarrow> (qa_failure x, w')
                    | Inr c \<Rightarrow>
                        (let ans = strip c
                         in (if ans \<noteq> [] then ans else ''No relevant answer found.'', w')))
              else (''Q&A failed: HTTP '' @ str_int (status_code resp) @ '' - '' @ resp_text resp,
                    w'))))"

section \<open>Regular expressions of the entity agent\<close>

text \<open>
  The fragment of Python's \<open>re\<close> that the three patterns use: the word boundary
  \<open>\b\<close>, a literal, a greedy bounded or unbounded repetition of a character class, a
  sequence and an alternation. \<open>is_word\<close> is \<open>\w\<close> on a code point below 256
  (\<open>str.isalnum()\<close> or the underscore), which decides \<open>\b\<close>.
\<close>

definition is_word :: "char \<Rightarrow> bool" where
  "is_word c =
     (let n = (of_char c :: nat)
      in (48 \<le> n \<and> n \<le> 57) \<or> (65 \<le> n \<and> n \<le> 90) \<or> n = 95 \<or> (97 \<le> n \<and> n \<le> 122)
         \<or> n = 170 \<or> n = 178 \<or> n = 179 \<or> n = 181 \<or> n = 185 \<or> n = 186
         \<or> (188 \<le> n \<and> n \<le> 190) \<or> (192 \<le> n \<and> n \<le> 214)
         \<or> (216 \<le> n \<and> n \<le> 246) \<or> (248 \<le> n \<and> n \<le> 255))"

datatype citem = CRange char char | COne char

fun in_item :: "char \<Rightarrow> citem \<Rightarrow> bool" where
  "in_item c (CRange lo hi) =
     ((of_char lo :: nat) \<le> of_char c \<and> (of_char c :: nat) \<le> of_char hi)"
| "in_item c (COne d) = (c = d)"

definition in_class :: "citem list \<Rightarrow> char \<Rightarrow> bool" where
  "in_class cls c = list_ex (in_item c) cls"

datatype regex =
    WordBoundary
  | Lit string
  | Repeat "citem list" nat "nat option"
  | Seq "regex list"
  | Alt "regex list"

text \<open>
  A state of the matcher: the character before the current position (\<open>None\<close> at the
  start of the text), the characters matched so far (reversed), and the rest of the
  text.
\<close>

type_synonym mstate = "char option \<times> string \<times> string"

definition at_boundary :: "mstate \<Rightarrow> bool" where
  "at_boundary st =
     (case st of (prev, acc, rest) \<Rightarrow>
        (case prev of None \<Rightarrow> False | Some c \<Rightarrow> is_word c)
        \<noteq> (case rest of [] \<Rightarrow> False | c # _ \<Rightarrow> is_word c))"

fun match_lit :: "string \<Rightarrow> char option \<Rightarrow> string \<Rightarrow> string \<Rightarrow> mstate list" where
  "match_lit [] prev acc rest = [(prev, acc, rest)]"
| "match_lit (l # ls) prev acc [] = []"
| "match_lit (l # ls) prev acc (c # cs) =
     (if c = l then match_lit ls (Some c) (c # acc) cs else [])"

text \<open>
  A greedy repetition between \<open>lo\<close> and \<open>hi\<close> times (\<open>hi = None\<close>: no upper bound):
  the states reached, the longest repetition first, as backtracking tries them.
\<close>

fun match_repeat ::
  "citem list \<Rightarrow> nat \<Rightarrow> nat option \<Rightarrow> char option \<Rightarrow> string \<Rightarrow> string \<Rightarrow> mstate list" where
  "match_repeat cls lo hi prev acc [] = (if lo = 0 then [(prev, acc, [])] else [])"
| "match_repeat cls lo hi prev acc (c # cs) =
     (if in_class cls c \<and> hi \<noteq> Some 0
      then match_repeat cls (lo - 1) (map_option (\<lambda>h. h - 1) hi) (Some c) (c # acc) cs
      else [])
     @ (if lo = 0 then [(prev, acc, c # cs)] else [])"

text \<open>
  The states in which a match of the expression can end, in the order in which the
  backtracking matcher finds them: the first is the match it reports.
\<close>

fun rmatch :: "regex \<Rightarrow> mstate \<Rightarrow> mstate list"
  and rmatch_seq :: "regex list \<Rightarrow> mstate \<Rightarrow> mstate list"
  and rmatch_alt :: "regex list \<Rightarrow> mstate \<Rightarrow> mstate list" where
  "rmatch WordBoundary st = (if at_boundary st then [st] else [])"
| "rmatch (Lit l) st = (case st of (prev, acc, rest) \<Rightarrow> match_lit l prev acc rest)"
| "rmatch (Repeat cls lo hi) st =
     (case st of (prev, acc, rest) \<Rightarrow> match_repeat cls lo hi prev acc rest)"
| "rmatch (Seq rs) st = rmatch_seq rs st"
| "rmatch (Alt rs) st = rmatch_alt rs st"
| "rmatch_seq [] st = [st]"
| "rmatch_seq (r # rs) st = concat (map (rmatch_seq rs) (rmatch r st))"
| "rmatch_alt [] st = []"
| "rmatch_alt (r # rs) st = rmatch r st @ rmatch_alt rs st"

text \<open>
  \<open>re.findall(pattern, text)\<close> for a pattern without groups: the text is scanned from
  the left, a match is reported where the pattern matches, and the scan goes on after
  the match. \<open>skip\<close> counts the characters still inside the last match. None of the
  three patterns matches the empty string, so nothing is tried at the end of the text.
\<close>

fun findall_scan :: "regex \<Rightarrow> nat \<Rightarrow> char option \<Rightarrow> string \<Rightarrow> string list" where
  "findall_scan r skip prev [] = []"
| "findall_scan r skip prev (c # cs) =
     (if skip > 0 then findall_scan r (skip - 1) (Some c) cs
      else (case rmatch r (prev, [], c # cs) of
              [] \<Rightarrow> findall_scan r 0 (Some c) cs
            | (prev', acc, rest') # _ \<Rightarrow>
                rev acc # findall_scan r (length acc - 1) (Some c) cs))"

definition findall :: "regex \<Rightarrow> string \<Rightarrow> string list" where
  "findall r text = findall_scan r 0 None text"

section \<open>Entity agent\<close>

definition upper :: "citem list" where
  "upper = [CRange CHR ''A'' CHR ''Z'']"

definition lower :: "citem list" where
  "lower = [CRange CHR ''a'' CHR ''z'']"

definition letter :: "citem list" where
  "letter = [CRange CHR ''A'' CHR ''Z'', CRange CHR ''a'' CHR ''z'']"

text \<open>\<open>\d\<close> on a code point below 256: the ten ASCII digits.\<close>

definition digit :: "citem list" where
  "digit = [CRange CHR ''0'' CHR ''9'']"

definition dash_or_slash :: "citem list" where
  "dash_or_slash = [COne CHR ''-'', COne CHR ''/'']"

text \<open>\<open>\b[A-Z][a-z]+ [A-Z][a-z]+\b\<close>\<close>

definition name_pattern :: regex where
  "name_pattern =
     Seq [WordBoundary, Repeat upper 1 (Some 1), Repeat lower 1 None, Lit '' '',
          Repeat upper 1 (Some 1), Repeat lower 1 None, WordBoundary]"

text \<open>\<open>\b\d{1,2}[-/]\d{1,2}[-/]\d{2,4}\b\<close>\<close>

definition date_pattern :: regex where
  "date_pattern =
     Seq [WordBoundary, Repeat digit 1 (Some 2), Repeat dash_or_slash 1 (Some 1),
          Repeat digit 1 (Some 2), Repeat dash_or_slash 1 (Some 1),
          Repeat digit 2 (Some 4), WordBoundary]"

text \<open>\<open>\b[A-Z][A-Za-z]+(?: Corp| Inc| Ltd| University)\b\<close>\<close>

definition org_pattern :: regex where
  "org_pattern =
     Seq [WordBoundary, Repeat upper 1 (Some 1), Repeat letter 1 None,
          Alt [Lit '' Corp'', Lit '' Inc'', Lit '' Ltd'', Lit '' University''],
          WordBoundary]"

text \<open>
  \<open>EntityAgent.extract\<close> (\<open>extract\<close> is a command name of Isabelle, hence the longer
  name). \<open>list(set(xs))\<close> keeps one copy of every element in an order that
  Python does not fix; \<open>remdups\<close> is one such list, and the properties below speak of
  its elements only.
\<close>

definition extract_entities :: "string \<Rightarrow> pydict" where
  "extract_entities text =
     (let names = findall name_pattern text;
          dates = findall date_pattern text;
          orgs = findall org_pattern text
      in entity_set (remdups names) (remdups dates) (remdups orgs))"

section \<open>Parser agent\<close>

datatype error =
    UnsupportedFileFormatError string
  | DocumentParsingError string
  | OSError string

text \<open>The loop of \<open>_parse_pdf\<close>: \<open>text += page.get_text("text") + "\n"\<close>.\<close>

fun pdf_text :: "string \<Rightarrow> string list \<Rightarrow> string" where
  "pdf_text text [] = text"
| "pdf_text text (page # pages) = pdf_text (text @ page @ ''\<newline>'') pages"

definition parse_pdf :: "env \<Rightarrow> world \<Rightarrow> string \<Rightarrow> (error + string) \<times> world" where
  "parse_pdf e w file_path =
     ((case fitz_pages e (files w file_path) of
         Inl m \<Rightarrow> Inl (DocumentParsingError (''Failed parsing PDF: '' @ m))
       | Inr pages \<Rightarrow> Inr (strip (pdf_text [] pages))),
      w\<lparr>opened := opened w @ [file_path]\<rparr>)"

definition parse_docx :: "env \<Rightarrow> world \<Rightarrow> string \<Rightarrow> (error + string) \<times> world" where
  "parse_docx e w file_path =
     ((case docx_paragraphs e (files w file_path) of
         Inl m \<Rightarrow> Inl (DocumentParsingError (''Failed parsing DOCX: '' @ m))
       | Inr paragraphs \<Rightarrow> Inr (py_join ''\<newline>'' (filter (\<lambda>t. t \<noteq> []) paragraphs))),
      w\<lparr>opened := opened w @ [file_path]\<rparr>)"

definition parse_html :: "env \<Rightarrow> world \<Rightarrow> string \<Rightarrow> (error + string) \<times> world" where
  "parse_html e w file_path =
     ((case bs4_get_text e (files w file_path) of
         Inl m \<Rightarrow> Inl (DocumentParsingError (''Failed parsing HTML: '' @ m))
       | Inr text \<Rightarrow> Inr text),
      w\<lparr>opened := opened w @ [file_path]\<rparr>)"

definition parse :: "env \<Rightarrow> world \<Rightarrow> string \<Rightarrow> (error + string) \<times> world" where
  "parse e w file_path =
     (if endswith file_path ''.pdf'' then parse_pdf e w file_path
      else if endswith file_path ''.docx'' then parse_docx e w file_path
      else if endswith file_path ''.html'' then parse_html e w file_path
      else (Inl (UnsupportedFileFormatError (''Unsupported file: '' @ file_path)), w))"

section \<open>The upload route\<close>

definition UPLOAD_DIR :: string where
  "UPLOAD_DIR = ''uploaded_docs''"

text \<open>\<open>os.path.join(a, b)\<close> on a POSIX system.\<close>

definition os_path_join :: "string \<Rightarrow> string \<Rightarrow> string" where
  "os_path_join a b =
     (if take 1 b = ''/'' then b
      else if a = [] \<or> endswith a ''/'' then a @ b
      else a @ ''/'' @ b)"

text \<open>
  \<open>upload_document\<close>, on the name and the contents of the uploaded file. An exception
  leaves the route with the state reached so far.
\<close>

definition upload_document ::
  "env \<Rightarrow> world \<Rightarrow> string \<Rightarrow> string \<Rightarrow> (error + upload_response) \<times> world" where
  "upload_document e w filename contents =
     (if \<not> (endswith filename ''.pdf'' \<or> endswith filename ''.docx''
             \<or> endswith filename ''.html'')
      then (Inl (UnsupportedFileFormatError ''Unsupported file format''), w)
      else
        (let doc_id = uuid4 e;
             file_path = os_path_join UPLOAD_DIR (doc_id @ ''_'' @ filename)
         in if \<not> writable e file_path then (Inl (OSError file_path), w)
            else
              (case parse e (w\<lparr>files := (files w)(file_path \<mapsto> contents)\<rparr>) file_path of
                 (Inl err, w1) \<Rightarrow> (Inl err, w1)
               | (Inr text, w1) \<Rightarrow>
                   (case summarize_document e w1 text of
                      (summary0, w2) \<Rightarrow>
                        (let summary = (if \<not> validate_summary (Some summary0)
                                        then rollback_summary else summary0);
                             entities0 = extract_entities text;
                             entities = (if \<not> validate_entities entities0
                                         then [(''error'', PyStr rollback_entities)]
                                         else entities0)
                         in (Inr \<lparr>resp_doc_id = doc_id, resp_filename = filename,
                                  resp_summary = summary, resp_entities = entities\<rparr>,
                             w2\<lparr>documents_store := (documents_store w2)(doc_id \<mapsto>
                                  \<lparr>doc_filename = filename, doc_text = text,
                                   doc_summary = summary, doc_entities = entities\<rparr>)\<rparr>))))))"

section \<open>Example inputs\<close>

text \<open>
  A state with nothing posted, no file and no document, and an environment whose
  endpoint always gives the same reply, whose PDF library finds the given pages and
  whose HTML library finds the given text.
\<close>

definition example_world :: world where
  "example_world = \<lparr>posted = [], files = Map.empty, opened = [], documents_store = Map.empty\<rparr>"

definition example_env :: "(py_exc + http_response) \<Rightarrow> string list \<Rightarrow> string \<Rightarrow> env" where
  "example_env reply pages html =
     \<lparr>upstream = (\<lambda>_ _. reply), fitz_pages = (\<lambda>_. Inr pages),
      docx_paragraphs = (\<lambda>_. Inr []), bs4_get_text = (\<lambda>_. Inr html),
      uuid4 = ''0b5c2e1a'', writable = (\<lambda>_. True)\<rparr>"

section \<open>Properties of the validation agent\<close>

lemma token_starts_prev:
  "isspace p = isspace q \<Longrightarrow>
   length (filter (\<lambda>(p, c). isspace p \<and> \<not> isspace c) (zip (p # s) s)) =
   length (filter (\<lambda>(p, c). isspace p \<and> \<not> isspace c) (zip (q # s) s))"
  by (cases s) simp_all

lemma split_acc_length:
  "length (split_acc cur s) =
     (if cur = [] then 0 else 1) +
     length (filter (\<lambda>(p, c). isspace p \<and> \<not> isspace c)
               (zip ((if cur = [] then CHR 0x20 else CHR ''x'') # s) s))"
proof (induction s arbitrary: cur)
  case Nil
  show ?case by simp
next
  case (Cons c cs)
  have sp: "isspace (CHR 0x20)" and nx: "\<not> isspace (CHR ''x'')"
    by (simp_all add: isspace_def)
  show ?case
  proof (cases "isspace c")
    case True
    then have "isspace c = isspace (CHR 0x20)" using sp by simp
    from token_starts_prev [OF this, of cs] True show ?thesis
      using Cons.IH [of "[]"] sp nx by (cases "cur = []") simp_all
  next
    case False
    then have "isspace c = isspace (CHR ''x'')" using nx by simp
    from token_starts_prev [OF this, of cs] False show ?thesis
      using Cons.IH [of "c # cur"] sp nx by (cases "cur = []") simp_all
  qed
qed

lemma split_ws_token_count: "length (split_ws s) = token_count s"
  by (simp add: split_ws_def token_count_def split_acc_length)

text \<open>
  Claim C2. \<open>validate_summary\<close> passes exactly the non-empty texts with more than five
  whitespace-delimited tokens: the number of strings that \<open>split()\<close> returns is the
  number of tokens, a text of exactly five tokens fails, one of six passes, and the
  empty text and \<open>None\<close> fail.
\<close>

theorem validate_summary_token_boundary:
  "length (split_ws s) = token_count s
   \<and> (validate_summary (Some s) \<longleftrightarrow> s \<noteq> [] \<and> 5 < token_count s)
   \<and> (token_count s = 5 \<longrightarrow> \<not> validate_summary (Some s))
   \<and> (token_count s = 6 \<longrightarrow> validate_summary (Some s))
   \<and> \<not> validate_summary (Some [])
   \<and> \<not> validate_summary None"
proof -
  have "token_count s = 6 \<Longrightarrow> s \<noteq> []"
    by (auto simp: token_count_def)
  then show ?thesis
    by (auto simp: validate_summary_def split_ws_token_count)
qed

theorem validate_summary_token_boundary_witness:
  "token_count ''The report covers five topics'' = 5
   \<and> \<not> validate_summary (Some ''The report covers five topics'')
   \<and> token_count ''The report covers five topics thoroughly'' = 6
   \<and> validate_summary (Some ''The report covers five topics thoroughly'')"
  using validate_summary_token_boundary [of "''The report covers five topics''"]
    validate_summary_token_boundary [of "''The report covers five topics thoroughly''"]
  by (simp add: token_count_def isspace_def)

text \<open>
  Claim C9. On a three-category entity set, \<open>validate_entities\<close> passes exactly when
  one of the three lists is non-empty; with all three empty it fails.
\<close>

theorem validate_entities_entity_set:
  "(validate_entities (entity_set names dates orgs)
      \<longleftrightarrow> names \<noteq> [] \<or> dates \<noteq> [] \<or> orgs \<noteq> [])
   \<and> \<not> validate_entities (entity_set [] [] [])"
  by (simp add: validate_entities_def entity_set_def dict_values_def)

theorem validate_entities_entity_set_witness:
  "validate_entities (entity_set [''Alice Johnson''] [] [])
   \<and> validate_entities (entity_set [] [''12/12/2024''] [])
   \<and> validate_entities (entity_set [] [] [''OpenAI University''])
   \<and> \<not> validate_entities (entity_set [] [] [])"
  using validate_entities_entity_set [of "[''Alice Johnson'']" "[]" "[]"]
    validate_entities_entity_set [of "[]" "[''12/12/2024'']" "[]"]
    validate_entities_entity_set [of "[]" "[]" "[''OpenAI University'']"]
  by simp

text \<open>
  Claim C10. The rollback record \<open>{"error": "Entities rolled back due to low
  confidence."}\<close> passes \<open>validate_entities\<close>: the check asks only whether some value
  of the dictionary it is given has a positive length, and the message has one.
\<close>

theorem validate_entities_rollback_record:
  "validate_entities [(''error'', PyStr ''Entities rolled back due to low confidence.'')]
   \<and> validate_entities rollback_entities_dict
   \<and> (validate_entities d \<longleftrightarrow> (\<exists>v \<in> set (dict_values d). 0 < py_len v))"
  by (simp add: validate_entities_def rollback_entities_dict_def rollback_entities_def
      dict_values_def list_ex_iff)

section \<open>Properties of the entity agent\<close>

text \<open>
  Claim C8. On the text "Alice Johnson met on 12/12/2024 at OpenAI University." the
  extractor returns an entity set whose names contain "Alice Johnson", whose dates
  contain "12/12/2024" and whose organizations contain an entry in which "University"
  occurs.
\<close>

theorem extract_entities_sample:
  "\<exists>names dates orgs.
     extract_entities ''Alice Johnson met on 12/12/2024 at OpenAI University.''
       = entity_set names dates orgs
     \<and> ''Alice Johnson'' \<in> set names
     \<and> ''12/12/2024'' \<in> set dates
     \<and> list_ex (py_in ''University'') orgs"
proof -
  have "extract_entities ''Alice Johnson met on 12/12/2024 at OpenAI University.''
          = entity_set [''Alice Johnson''] [''12/12/2024''] [''OpenAI University'']"
    by code_simp
  moreover have "list_ex (py_in ''University'') [''OpenAI University'']"
    by code_simp
  ultimately show ?thesis
    by (intro exI [of _ "[''Alice Johnson'']"] exI [of _ "[''12/12/2024'']"]
        exI [of _ "[''OpenAI University'']"]) simp
qed

section \<open>Properties of strings\<close>

lemma strip_empty_iff: "strip s = [] \<longleftrightarrow> list_all isspace s"
proof
  assume "strip s = []"
  then have all: "\<forall>c \<in> set (dropWhile isspace s). isspace c"
    by (simp add: strip_def rstrip_def lstrip_def dropWhile_eq_Nil_conv)
  have "dropWhile isspace s = []"
  proof (cases "dropWhile isspace s")
    case Nil then show ?thesis .
  next
    case (Cons c cs)
    then have "\<not> isspace c" using hd_dropWhile [of isspace s] by simp
    with all Cons show ?thesis by simp
  qed
  then show "list_all isspace s"
    by (simp add: dropWhile_eq_Nil_conv list_all_iff)
next
  assume "list_all isspace s"
  then have e: "dropWhile isspace s = []"
    by (simp add: dropWhile_eq_Nil_conv list_all_iff)
  show "strip s = []"
    unfolding strip_def rstrip_def lstrip_def e by simp
qed

lemma endswith_iff: "endswith s x \<longleftrightarrow> (\<exists>p. s = p @ x)"
proof
  assume "endswith s x"
  then have "s = take (length s - length x) s @ x"
    by (metis append_take_drop_id endswith_def)
  then show "\<exists>p. s = p @ x" ..
next
  assume "\<exists>p. s = p @ x"
  then show "endswith s x" by (auto simp: endswith_def)
qed

lemma py_in_iff: "py_in sub s \<longleftrightarrow> (\<exists>p q. s = p @ sub @ q)"
proof (induction s)
  case Nil
  show ?case by auto
next
  case (Cons c cs)
  show ?case
  proof
    assume "py_in sub (c # cs)"
    then consider "take (length sub) (c # cs) = sub" | "py_in sub cs" by auto
    then show "\<exists>p q. c # cs = p @ sub @ q"
    proof cases
      case 1
      then have "c # cs = [] @ sub @ drop (length sub) (c # cs)"
        by (metis append_Nil append_take_drop_id)
      then show ?thesis by blast
    next
      case 2
      with Cons.IH obtain p q where "cs = p @ sub @ q" by blast
      then have "c # cs = (c # p) @ sub @ q" by simp
      then show ?thesis by blast
    qed
  next
    assume "\<exists>p q. c # cs = p @ sub @ q"
    then obtain p q where pq: "c # cs = p @ sub @ q" by blast
    show "py_in sub (c # cs)"
    proof (cases p)
      case Nil
      with pq have "take (length sub) (c # cs) = sub" by simp
      then show ?thesis by simp
    next
      case (Cons d p')
      with pq have "cs = p' @ sub @ q" by simp
      with Cons.IH have "py_in sub cs" by blast
      then show ?thesis by simp
    qed
  qed
qed

lemma py_in_length: "py_in sub s \<Longrightarrow> length sub \<le> length s"
  by (auto simp: py_in_iff)

lemma py_in_same_length: "py_in sub s \<Longrightarrow> length sub = length s \<Longrightarrow> s = sub"
  by (auto simp: py_in_iff)

section \<open>Properties of the summarizer agent\<close>

lemma posted_call_llm:
  "posted (snd (call_llm e w content)) = posted w @ [summary_request content]"
  by (simp add: call_llm_def post_def Let_def split: sum.splits py_exc.splits)

text \<open>
  Claim C1, as stated, fails. \<open>_call_llm\<close> cuts the user content of every call to its
  first 4000 characters, the instruction line included. With two documents of 4000 and
  1 characters the joined corpus does not occur in what \<open>summarize_corpus\<close> sends, and
  the first 4000 characters of a section of 4000 characters do not occur in what
  \<open>summarize_section\<close> sends.
\<close>

theorem summarizer_truncation_counterexample:
  "\<not> py_in (py_join ''\<newline>\<newline>'' [replicate 4000 CHR ''a'', ''b''])
        (user_content (last (posted (snd (summarize_corpus
           (example_env (Inl (RequestException ''down'')) [] []) example_world
           [replicate 4000 CHR ''a'', ''b''])))))
   \<and> \<not> py_in (take 4000 (replicate 4000 CHR ''a''))
        (user_content (last (posted (snd (summarize_section
           (example_env (Inl (RequestException ''down'')) [] []) example_world
           (replicate 4000 CHR ''a''))))))"
proof
  let ?e = "example_env (Inl (RequestException ''down'')) [] []"
  let ?j = "py_join ''\<newline>\<newline>'' [replicate 4000 CHR ''a'', ''b'']"
  let ?sent = "user_content (last (posted (snd (summarize_corpus ?e example_world
                 [replicate 4000 CHR ''a'', ''b'']))))"
  have "length ?sent = 4000"
    by (simp add: summarize_corpus_def posted_call_llm summary_request_def)
  moreover have "length ?j = 4003" by simp
  ultimately show "\<not> py_in ?j ?sent"
    using py_in_length [of ?j ?sent] by linarith
next
  let ?e = "example_env (Inl (RequestException ''down'')) [] []"
  let ?t = "replicate 4000 CHR ''a''"
  let ?sent = "user_content (last (posted (snd (summarize_section ?e example_world ?t))))"
  have s: "?sent = ''Summarize this section:\<newline>'' @ take 3976 ?t"
    by (simp add: summarize_section_def posted_call_llm summary_request_def)
  have "length ?sent = length (take 4000 ?t)"
    unfolding s by simp
  moreover have "?sent \<noteq> take 4000 ?t"
  proof
    assume "?sent = take 4000 ?t"
    then have "hd ?sent = hd (take 4000 ?t)" by simp
    then show False unfolding s by (simp add: hd_replicate)
  qed
  ultimately show "\<not> py_in (take 4000 ?t) ?sent"
    using py_in_same_length [of "take 4000 ?t" ?sent] by metis
qed

text \<open>
  Claim C1, amended. \<open>summarize_corpus\<close> joins the documents with a blank line, puts
  the instruction line "Summarize across documents:" before them and posts one request
  whose user content is the first 4000 characters of that prompt;
  \<open>summarize_section\<close> and \<open>summarize_document\<close> post the first 4000 characters of
  their instruction line followed by the input text. So the corpus is truncated like
  the others, and of the input itself the first 3972 (corpus), 3976 (section) and 3951
  (document) characters are sent.
\<close>

theorem summarizer_sends_truncated_prompt:
  "posted (snd (summarize_corpus e w texts))
     = posted w @ [\<lparr>system_content = ''You are a document summarization agent.'',
          user_content = take 4000 (''Summarize across documents:\<newline>''
                                      @ py_join ''\<newline>\<newline>'' texts),
          max_tokens = 500\<rparr>]
   \<and> posted (snd (summarize_section e w text))
     = posted w @ [\<lparr>system_content = ''You are a document summarization agent.'',
          user_content = take 4000 (''Summarize this section:\<newline>'' @ text),
          max_tokens = 500\<rparr>]
   \<and> posted (snd (summarize_document e w text))
     = posted w @ [\<lparr>system_content = ''You are a document summarization agent.'',
          user_content =
            take 4000 (''Provide a section-wise summary of this document:\<newline>'' @ text),
          max_tokens = 500\<rparr>]
   \<and> take 4000 (''Summarize across documents:\<newline>'' @ py_join ''\<newline>\<newline>'' texts)
     = ''Summarize across documents:\<newline>'' @ take 3972 (py_join ''\<newline>\<newline>'' texts)
   \<and> take 4000 (''Summarize this section:\<newline>'' @ text)
     = ''Summarize this section:\<newline>'' @ take 3976 text
   \<and> take 4000 (''Provide a section-wise summary of this document:\<newline>'' @ text)
     = ''Provide a section-wise summary of this document:\<newline>'' @ take 3951 text"
  by (simp add: summarize_corpus_def summarize_section_def summarize_document_def
      posted_call_llm summary_request_def system_prompt_def)

text \<open>
  Claim C7. When the endpoint answers the summarization request with a status other
  than 200, \<open>_call_llm\<close> returns "Summarization failed: " followed by the raw response
  body, as an ordinary string; with the body "Internal server error" the returned
  string contains "Summarization failed: Internal server error". The three
  summarization operations all return what \<open>_call_llm\<close> returns.
\<close>

theorem call_llm_non_success:
  assumes "upstream e (posted w) (summary_request content) = Inr resp"
    and "status_code resp \<noteq> 200"
  shows "fst (call_llm e w content) = ''Summarization failed: '' @ resp_text resp
         \<and> (resp_text resp = ''Internal server error''
              \<longrightarrow> py_in ''Summarization failed: Internal server error''
                    (fst (call_llm e w content)))"
  using assms by (simp add: call_llm_def post_def)

theorem call_llm_non_success_witness:
  "upstream (example_env (Inr \<lparr>status_code = 500, resp_text = ''Internal server error'',
               json_content = Inl (OtherException ''Expecting value'')\<rparr>) [] [])
       (posted example_world)
       (summary_request (''Provide a section-wise summary of this document:\<newline>''
                          @ ''Quarterly report''))
     = Inr \<lparr>status_code = 500, resp_text = ''Internal server error'',
            json_content = Inl (OtherException ''Expecting value'')\<rparr>
   \<and> status_code \<lparr>status_code = 500, resp_text = ''Internal server error'',
            json_content = Inl (OtherException ''Expecting value'')\<rparr> \<noteq> 200
   \<and> fst (summarize_document
            (example_env (Inr \<lparr>status_code = 500, resp_text = ''Internal server error'',
               json_content = Inl (OtherException ''Expecting value'')\<rparr>) [] [])
            example_world ''Quarterly report'')
     = ''Summarization failed: Internal server error''"
  using call_llm_non_success
    [of "example_env (Inr \<lparr>status_code = 500, resp_text = ''Internal server error'',
               json_content = Inl (OtherException ''Expecting value'')\<rparr>) [] []"
      example_world
      "''Provide a section-wise summary of this document:\<newline>'' @ ''Quarterly report''"
      "\<lparr>status_code = 500, resp_text = ''Internal server error'',
               json_content = Inl (OtherException ''Expecting value'')\<rparr>"]
  by (simp add: example_env_def summarize_document_def)

section \<open>Properties of the question-answering agent\<close>

lemma ask_posts_once:
  "\<not> list_all isspace question \<Longrightarrow> \<not> list_all isspace doc \<Longrightarrow>
   posted (snd (ask e w question doc)) = posted w @ [qa_request question doc]"
  by (simp add: ask_def strip_empty_iff post_def Let_def split: sum.splits py_exc.splits)

text \<open>
  Claim C5. A question that is empty or consists of whitespace only gets the answer
  "No question provided." whatever the document text is, and a question with a
  non-whitespace character on a document text that is empty or whitespace only gets
  "No document content available."; in both cases the state is returned unchanged, so
  nothing was posted to the endpoint. (The claim's "non-empty question" is read as the
  complement of its first case: a whitespace-only question falls under the first
  case.)
\<close>

theorem ask_blank_inputs:
  "(list_all isspace question \<longrightarrow>
      ask e w question doc = (''No question provided.'', w)
      \<and> posted (snd (ask e w question doc)) = posted w)
   \<and> (\<not> list_all isspace question \<and> list_all isspace doc \<longrightarrow>
      ask e w question doc = (''No document content available.'', w)
      \<and> posted (snd (ask e w question doc)) = posted w)"
proof (intro conjI impI)
  assume "list_all isspace question"
  then have "strip question = []"
    by (simp add: strip_empty_iff)
  then show "ask e w question doc = (''No question provided.'', w)"
    by (simp add: ask_def)
  then show "posted (snd (ask e w question doc)) = posted w"
    by simp
next
  assume "\<not> list_all isspace question \<and> list_all isspace doc"
  then have "strip question \<noteq> []" and "strip doc = []"
    by (simp_all add: strip_empty_iff)
  then show "ask e w question doc = (''No document content available.'', w)"
    by (simp add: ask_def)
  then show "posted (snd (ask e w question doc)) = posted w"
    by simp
qed

theorem ask_blank_inputs_witness:
  "list_all isspace ''  ''
   \<and> ask (example_env (Inl (RequestException ''down'')) [] []) example_world ''  '' ''Some text''
       = (''No question provided.'', example_world)
   \<and> \<not> list_all isspace ''Who?'' \<and> list_all isspace '' ''
   \<and> ask (example_env (Inl (RequestException ''down'')) [] []) example_world ''Who?'' '' ''
       = (''No document content available.'', example_world)"
  using ask_blank_inputs [where question = "''  ''" and doc = "''Some text''"
      and e = "example_env (Inl (RequestException ''down'')) [] []" and w = example_world]
    ask_blank_inputs [where question = "''Who?''" and doc = "'' ''"
      and e = "example_env (Inl (RequestException ''down'')) [] []" and w = example_world]
  by (simp add: isspace_def)

section \<open>Properties of the parser agent\<close>

text \<open>
  Claim C6. For a path that ends in none of \<open>.pdf\<close>, \<open>.docx\<close> and \<open>.html\<close>,
  \<open>parse\<close> raises \<open>UnsupportedFileFormatError\<close>, which is not a
  \<open>DocumentParsingError\<close>, with the state unchanged: no parsing library was handed
  the file, and the outcome does not depend on the environment. The upload route
  rejects such a file name with the same kind of error before it writes anything.
\<close>

theorem parse_unsupported_extension:
  assumes "\<not> endswith file_path ''.pdf''" and "\<not> endswith file_path ''.docx''"
    and "\<not> endswith file_path ''.html''"
  shows "parse e w file_path
           = (Inl (UnsupportedFileFormatError (''Unsupported file: '' @ file_path)), w)
         \<and> (\<forall>m. fst (parse e w file_path) \<noteq> Inl (DocumentParsingError m))
         \<and> upload_document e w file_path contents
             = (Inl (UnsupportedFileFormatError ''Unsupported file format''), w)"
  using assms by (simp add: parse_def upload_document_def)

theorem parse_unsupported_extension_witness:
  "\<not> endswith ''test.txt'' ''.pdf'' \<and> \<not> endswith ''test.txt'' ''.docx''
   \<and> \<not> endswith ''test.txt'' ''.html''
   \<and> parse (example_env (Inl (RequestException ''down'')) [] []) example_world ''test.txt''
       = (Inl (UnsupportedFileFormatError ''Unsupported file: test.txt''), example_world)"
proof -
  have h: "\<not> endswith ''test.txt'' ''.pdf''" "\<not> endswith ''test.txt'' ''.docx''"
    "\<not> endswith ''test.txt'' ''.html''"
    by (simp_all add: endswith_def)
  from parse_unsupported_extension [OF h] h show ?thesis by simp
qed

lemma pdf_text_concat: "pdf_text acc pages = acc @ concat (map (\<lambda>p. p @ ''\<newline>'') pages)"
  by (induction pages arbitrary: acc) simp_all

lemma parse_pdf_strip_concat:
  "fitz_pages e (files w file_path) = Inr pages \<Longrightarrow>
   fst (parse_pdf e w file_path) = Inr (strip (concat (map (\<lambda>p. p @ ''\<newline>'') pages)))"
  by (simp add: parse_pdf_def pdf_text_concat)

text \<open>
  Claim C4 does not hold of \<open>_parse_pdf\<close>: the loop appends a newline after the text
  of every page, but the result is stripped. A document whose pages yield "Hello" with
  a newline and then nothing is returned as "Hello", and a document of two empty pages
  as the empty string: the empty pages leave no line.
\<close>

theorem parse_pdf_trailing_empty_page:
  "fst (parse (example_env (Inl (RequestException ''down'')) [''Hello\<newline>'', ''''] [])
          example_world ''scan.pdf'') = Inr ''Hello''
   \<and> fst (parse (example_env (Inl (RequestException ''down'')) ['''', ''''] [])
          example_world ''blank.pdf'') = Inr ''''"
  by (simp add: parse_def endswith_def parse_pdf_def example_env_def strip_def lstrip_def
      rstrip_def isspace_def)

section \<open>Properties of the upload route\<close>

text \<open>
  Claim C3. When an upload succeeds, the route has parsed the stored file into a text
  and obtained a summary of it, and the document is in the store under the returned
  identifier. If the summary fails \<open>validate_summary\<close>, the returned and the stored
  summary are exactly "Summary rolled back due to low quality."; if the extracted
  entities fail \<open>validate_entities\<close>, the returned and the stored entities are exactly
  the record with the single key "error" and the value "Entities rolled back due to
  low confidence.".
\<close>

theorem upload_rollback:
  assumes "upload_document e w filename contents = (Inr resp, w')"
  shows "\<exists>text summary0 w1 w2 doc.
           parse e (w\<lparr>files := (files w)(os_path_join UPLOAD_DIR (uuid4 e @ ''_'' @ filename)
                                        \<mapsto> contents)\<rparr>)
             (os_path_join UPLOAD_DIR (uuid4 e @ ''_'' @ filename)) = (Inr text, w1)
           \<and> summarize_document e w1 text = (summary0, w2)
           \<and> documents_store w' (resp_doc_id resp) = Some doc
           \<and> (\<not> validate_summary (Some summary0) \<longrightarrow>
                resp_summary resp = ''Summary rolled back due to low quality.''
                \<and> doc_summary doc = ''Summary rolled back due to low quality.'')
           \<and> (\<not> validate_entities (extract_entities text) \<longrightarrow>
                resp_entities resp
                  = [(''error'', PyStr ''Entities rolled back due to low confidence.'')]
                \<and> doc_entities doc
                  = [(''error'', PyStr ''Entities rolled back due to low confidence.'')])"
  using assms
  by (auto simp: upload_document_def Let_def rollback_summary_def rollback_entities_def
      split: if_splits prod.splits sum.splits)

theorem upload_rollback_witness:
  "\<exists>resp w'.
     upload_document
       (example_env (Inr \<lparr>status_code = 200, resp_text = [],
                           json_content = Inr ''Too short''\<rparr>) [] ''nothing to see here'')
       example_world ''note.html'' ''<p>nothing to see here</p>'' = (Inr resp, w')
     \<and> \<not> validate_summary (Some ''Too short'')
     \<and> \<not> validate_entities (extract_entities ''nothing to see here'')
     \<and> resp_summary resp = ''Summary rolled back due to low quality.''
     \<and> resp_entities resp = [(''error'', PyStr ''Entities rolled back due to low confidence.'')]
     \<and> map_option doc_summary (documents_store w' (resp_doc_id resp))
         = Some ''Summary rolled back due to low quality.''
     \<and> map_option doc_entities (documents_store w' (resp_doc_id resp))
         = Some [(''error'', PyStr ''Entities rolled back due to low confidence.'')]"
proof -
  let ?e = "example_env (Inr \<lparr>status_code = 200, resp_text = [],
                           json_content = Inr ''Too short''\<rparr>) [] ''nothing to see here''"
  let ?path = "os_path_join UPLOAD_DIR (uuid4 ?e @ ''_'' @ ''note.html'')"
  let ?w0 = "example_world\<lparr>files := (files example_world)(?path \<mapsto> ''<p>nothing to see here</p>'')\<rparr>"
  have html: "endswith ''note.html'' ''.html''" "\<not> endswith ''note.html'' ''.pdf''"
    "\<not> endswith ''note.html'' ''.docx''"
    by (simp_all add: endswith_def)
  have path: "?path = ''uploaded_docs/0b5c2e1a_note.html''"
    by (simp add: os_path_join_def UPLOAD_DIR_def example_env_def endswith_def)
  have p: "fst (parse ?e ?w0 ?path) = Inr ''nothing to see here''"
    unfolding path by (simp add: parse_def parse_html_def endswith_def example_env_def)
  have s: "fst (summarize_document ?e w1 ''nothing to see here'') = ''Too short''" for w1
    by (simp add: summarize_document_def call_llm_def post_def example_env_def strip_def
        lstrip_def rstrip_def isspace_def)
  have vs: "\<not> validate_summary (Some ''Too short'')"
    by (simp add: validate_summary_def split_ws_def isspace_def)
  have ve: "\<not> validate_entities (extract_entities ''nothing to see here'')"
    by code_simp
  obtain w1' where p': "parse ?e ?w0 ?path = (Inr ''nothing to see here'', w1')"
    using p by (cases "parse ?e ?w0 ?path") auto
  obtain s0 w2' where s': "summarize_document ?e w1' ''nothing to see here'' = (s0, w2')"
    by (cases "summarize_document ?e w1' ''nothing to see here''") auto
  have wr: "writable ?e ?path"
    by (simp add: example_env_def)
  have "\<exists>resp w'. upload_document ?e example_world ''note.html''
          ''<p>nothing to see here</p>'' = (Inr resp, w')"
    using html wr p' s' by (simp add: upload_document_def Let_def)
  then obtain resp w' where u:
    "upload_document ?e example_world ''note.html'' ''<p>nothing to see here</p>'' = (Inr resp, w')"
    by blast
  from upload_rollback [OF u] obtain body summary0 w1 w2 doc where
    r: "parse ?e ?w0 ?path = (Inr body, w1)"
      "summarize_document ?e w1 body = (summary0, w2)"
      "documents_store w' (resp_doc_id resp) = Some doc"
      "\<not> validate_summary (Some summary0) \<longrightarrow>
         resp_summary resp = ''Summary rolled back due to low quality.''
         \<and> doc_summary doc = ''Summary rolled back due to low quality.''"
      "\<not> validate_entities (extract_entities body) \<longrightarrow>
         resp_entities resp = [(''error'', PyStr ''Entities rolled back due to low confidence.'')]
         \<and> doc_entities doc = [(''error'', PyStr ''Entities rolled back due to low confidence.'')]"
    by blast
  from r(1) p have t: "body = ''nothing to see here''" by simp
  from r(2) s [of w1] have s0: "summary0 = ''Too short''" unfolding t by simp
  from r(3,4,5) vs ve u show ?thesis unfolding t s0 by simp
qed

end
